theory Spec2Isabelle
  imports Main
begin

section \<open>The release-channel store (internal/db/db.go)\<close>

text \<open>
  Go strings are byte sequences and are modelled as \<open>string\<close>. An \<open>error\<close> value is
  represented by its message. Logging through zerolog has no effect on the store and is
  left out; the logger field \<open>ll\<close> is therefore not part of the records.
\<close>

type_synonym error = string

record Release =
  Container :: string
  ImagePath :: string
  ReleaseChannel :: string

text \<open>
  \<open>Releases\<close> is a slice of pointers. Nothing in the repository assigns to a field of
  a \<open>Release\<close> once it is built, so the store is modelled as holding the values. The
  nil pointer matters only where records come out of the JSON decoder; it is modelled
  there.
\<close>

type_synonym Releases = "Release list"

datatype ReleaseKey = ReleaseKey (keyContainer: string) (keyReleaseChannel: string)

definition ToKey :: "Release \<Rightarrow> ReleaseKey" where
  "ToKey r = ReleaseKey (Container r) (ReleaseChannel r)"

record inMem =
  all :: Releases
  byChannel :: "string \<rightharpoonup> Releases"
  byContainer :: "string \<rightharpoonup> Releases"
  byBoth :: "ReleaseKey \<rightharpoonup> Release"

definition NewInMemoryStore :: inMem where
  "NewInMemoryStore =
     \<lparr>all = [], byChannel = Map.empty, byContainer = Map.empty, byBoth = Map.empty\<rparr>"

text \<open>
  \<open>fmt.Errorf("... %s", r)\<close> with \<open>r\<close> a pointer to a struct of three strings prints
  the fields in declaration order between \<open>&{\<close> and \<open>}\<close>.
\<close>

definition fmtRelease :: "Release \<Rightarrow> string" where
  "fmtRelease r =
     ''&{'' @ Container r @ '' '' @ ImagePath r @ '' '' @ ReleaseChannel r @ ''}''"

text \<open>
  Indexing a Go map at a missing key yields the nil slice, and \<open>append\<close> to the nil
  slice yields a one-element slice.
\<close>

definition appendAt :: "(string \<rightharpoonup> Releases) \<Rightarrow> string \<Rightarrow> Release \<Rightarrow> (string \<rightharpoonup> Releases)" where
  "appendAt m k r = m(k \<mapsto> (case m k of None \<Rightarrow> [r] | Some xs \<Rightarrow> xs @ [r]))"

text \<open>The four assignment statements of \<open>Write\<close>, in program order.\<close>

definition appendAll :: "Release \<Rightarrow> inMem \<Rightarrow> inMem" where
  "appendAll r im = im\<lparr>all := all im @ [r]\<rparr>"

definition appendByContainer :: "Release \<Rightarrow> inMem \<Rightarrow> inMem" where
  "appendByContainer r im = im\<lparr>byContainer := appendAt (byContainer im) (Container r) r\<rparr>"

definition appendByChannel :: "Release \<Rightarrow> inMem \<Rightarrow> inMem" where
  "appendByChannel r im = im\<lparr>byChannel := appendAt (byChannel im) (ReleaseChannel r) r\<rparr>"

definition setByBoth :: "Release \<Rightarrow> inMem \<Rightarrow> inMem" where
  "setByBoth r im = im\<lparr>byBoth := (byBoth im)(ToKey r \<mapsto> r)\<rparr>"

text \<open>
  \<open>Write\<close> mutates its receiver; the model returns the error (\<open>None\<close> for Go's
  \<open>nil\<close>) together with the store after the call.
\<close>

definition Write :: "inMem \<Rightarrow> Release \<Rightarrow> error option \<times> inMem" where
  "Write im r =
     (if Container r = [] then
        (Some (''`container` not set on write for '' @ fmtRelease r), im)
      else if ReleaseChannel r = [] then
        (Some (''`releaseChannel` not set on write for '' @ fmtRelease r), im)
      else if ImagePath r = [] then
        (Some (''`image_path` not set on write for '' @ fmtRelease r), im)
      else
        (None, setByBoth r (appendByChannel r (appendByContainer r (appendAll r im)))))"

text \<open>
  \<open>Query\<close> has a pointer receiver as well; it returns the result together with the
  store after the call.
\<close>

definition Query :: "inMem \<Rightarrow> Release \<Rightarrow> Releases \<times> inMem" where
  "Query im r =
     (if Container r \<noteq> [] \<and> ReleaseChannel r \<noteq> [] then
        (case byBoth im (ToKey r) of Some out \<Rightarrow> ([out], im) | None \<Rightarrow> ([], im))
      else if Container r \<noteq> [] then
        (case byContainer im (Container r) of Some out \<Rightarrow> (out, im) | None \<Rightarrow> ([], im))
      else if ReleaseChannel r \<noteq> [] then
        (case byChannel im (ReleaseChannel r) of Some out \<Rightarrow> (out, im) | None \<Rightarrow> ([], im))
      else (all im, im))"

text \<open>
  What \<open>Query\<close> returns from a lookup in one of the two list-valued maps: the list
  stored at the key, or the empty list when the key is absent.
\<close>

definition found :: "(string \<rightharpoonup> Releases) \<Rightarrow> string \<Rightarrow> Releases" where
  "found m k = (case m k of Some out \<Rightarrow> out | None \<Rightarrow> [])"

section \<open>The server's load and reload path (internal/server/server.go)\<close>

text \<open>
  \<open>time.Time\<close> values are modelled by their position on the time line;
  \<open>t.After(u)\<close> is \<open>t > u\<close>. A \<open>[]byte\<close> is a list of 8-bit characters.
\<close>

type_synonym time = int
type_synonym bytes = string

text \<open>
  The calls that leave the repository are parameters of the model: \<open>os.Stat\<close>
  (giving the error, or the \<open>ModTime\<close> of the file), \<open>os.ReadFile\<close>, and
  \<open>json.Unmarshal\<close> into the \<open>releases\<close> field of type \<open>[]*Release\<close>. A JSON
  \<open>null\<close> in that array decodes to the nil pointer, which is \<open>None\<close> here.
\<close>

record env =
  osStat :: "string \<Rightarrow> error + time"
  osReadFile :: "string \<Rightarrow> error + bytes"
  jsonUnmarshal :: "bytes \<Rightarrow> error + Release option list"

record srv =
  db :: inMem
  dbFile :: string
  lastMod :: time

text \<open>
  A call of the server either returns its \<open>error\<close> result (\<open>None\<close> for \<open>nil\<close>)
  or panics.
\<close>

datatype outcome = Returned "error option" | Panicked

text \<open>
  The \<open>for _, r := range releasesIn.Releases\<close> loop of \<open>loadDatabase\<close>. The error
  of \<open>Write\<close> is only logged. \<open>Write\<close> reads \<open>r.Container\<close> in its first statement,
  so a nil \<open>r\<close> panics there and the loop is left with the store as it is; the first
  component of the result is \<open>False\<close> in that case.
\<close>

fun writeEach :: "inMem \<Rightarrow> Release option list \<Rightarrow> bool \<times> inMem" where
  "writeEach im [] = (True, im)"
| "writeEach im (None # rs) = (False, im)"
| "writeEach im (Some r # rs) = writeEach (snd (Write im r)) rs"

definition loadDatabase :: "env \<Rightarrow> srv \<Rightarrow> bytes \<Rightarrow> outcome \<times> srv" where
  "loadDatabase e s data =
     (let s1 = s\<lparr>db := NewInMemoryStore\<rparr> in
      case jsonUnmarshal e data of
        Inl err \<Rightarrow> (Returned (Some err), s1)
      | Inr releasesIn \<Rightarrow>
          (case writeEach (db s1) releasesIn of
             (True, im) \<Rightarrow> (Returned None, s1\<lparr>db := im\<rparr>)
           | (False, im) \<Rightarrow> (Panicked, s1\<lparr>db := im\<rparr>)))"

definition ReloadDatabase :: "env \<Rightarrow> srv \<Rightarrow> outcome \<times> srv" where
  "ReloadDatabase e s =
     (case osStat e (dbFile s) of
        Inl err \<Rightarrow> (Returned (Some err), s)
      | Inr modTime \<Rightarrow>
          if \<not> modTime > lastMod s then (Returned None, s)
          else
            (case osReadFile e (dbFile s) of
               Inl err \<Rightarrow> (Returned (Some err), s)
             | Inr data \<Rightarrow>
                 (case loadDatabase e s data of
                    (Returned (Some err), s') \<Rightarrow> (Returned (Some err), s')
                  | (Returned None, s') \<Rightarrow> (Returned None, s'\<lparr>lastMod := modTime\<rparr>)
                  | (Panicked, s') \<Rightarrow> (Panicked, s'))))"

text \<open>
  The goroutine of \<open>startFileWatcher\<close>: a loop around a \<open>select\<close> on the ticker and
  on \<open>ctx.Done()\<close>. The events the \<open>select\<close> receives are given as a list; a tick
  carries the file system and decoder as they are at that moment. The loop is
  \<open>Waiting\<close> when the events given are used up, \<open>Stopped\<close> after \<open>ctx.Done()\<close>, and
  \<open>Crashed\<close> when \<open>ReloadDatabase\<close> panicked (nothing in the goroutine recovers).
\<close>

datatype event = Tick env | CtxDone

datatype watcher = Waiting | Stopped | Crashed

fun fileWatcher :: "srv \<Rightarrow> event list \<Rightarrow> watcher \<times> srv" where
  "fileWatcher s [] = (Waiting, s)"
| "fileWatcher s (CtxDone # evs) = (Stopped, s)"
| "fileWatcher s (Tick e # evs) =
     (case ReloadDatabase e s of
        (Panicked, s') \<Rightarrow> (Crashed, s')
      | (Returned err, s') \<Rightarrow> fileWatcher s' evs)"

text \<open>
  The values the field \<open>s.db\<close> takes, in program order, while \<open>loadDatabase\<close> runs:
  the fresh store assigned in its first statement, then that same store after each
  assignment statement of each \<open>Write\<close> (the store is filled through the pointer
  already stored in \<open>s.db\<close>).
\<close>

definition WriteStates :: "inMem \<Rightarrow> Release \<Rightarrow> inMem list" where
  "WriteStates im r =
     (if fst (Write im r) \<noteq> None then []
      else [appendAll r im,
            appendByContainer r (appendAll r im),
            appendByChannel r (appendByContainer r (appendAll r im)),
            setByBoth r (appendByChannel r (appendByContainer r (appendAll r im)))])"

fun writeEachStates :: "inMem \<Rightarrow> Release option list \<Rightarrow> inMem list" where
  "writeEachStates im [] = []"
| "writeEachStates im (None # rs) = []"
| "writeEachStates im (Some r # rs) = WriteStates im r @ writeEachStates (snd (Write im r)) rs"

definition loadDatabaseStates :: "env \<Rightarrow> bytes \<Rightarrow> inMem list" where
  "loadDatabaseStates e data =
     NewInMemoryStore #
       (case jsonUnmarshal e data of
          Inl err \<Rightarrow> []
        | Inr releasesIn \<Rightarrow> writeEachStates NewInMemoryStore releasesIn)"

section \<open>Properties\<close>

subsection \<open>What a call of Write does to each field\<close>

lemma Write_ok_iff:
  "fst (Write im r) = None \<longleftrightarrow>
     Container r \<noteq> [] \<and> ReleaseChannel r \<noteq> [] \<and> ImagePath r \<noteq> []"
  by (simp add: Write_def)

lemma Write_ok_any_store: "fst (Write im r) = None \<longleftrightarrow> fst (Write im' r) = None"
  by (simp add: Write_ok_iff)

lemma Write_failed_store: "fst (Write im r) \<noteq> None \<Longrightarrow> snd (Write im r) = im"
  by (simp add: Write_def split: if_splits)

lemma Write_ok_all: "fst (Write im r) = None \<Longrightarrow> all (snd (Write im r)) = all im @ [r]"
  by (simp add: Write_def setByBoth_def appendByChannel_def appendByContainer_def
      appendAll_def split: if_splits)

lemma Write_ok_byContainer:
  "fst (Write im r) = None \<Longrightarrow>
     byContainer (snd (Write im r)) = appendAt (byContainer im) (Container r) r"
  by (simp add: Write_def setByBoth_def appendByChannel_def appendByContainer_def
      appendAll_def split: if_splits)

lemma Write_ok_byChannel:
  "fst (Write im r) = None \<Longrightarrow>
     byChannel (snd (Write im r)) = appendAt (byChannel im) (ReleaseChannel r) r"
  by (simp add: Write_def setByBoth_def appendByChannel_def appendByContainer_def
      appendAll_def split: if_splits)

lemma Write_ok_byBoth:
  "fst (Write im r) = None \<Longrightarrow> byBoth (snd (Write im r)) = (byBoth im)(ToKey r \<mapsto> r)"
  by (simp add: Write_def setByBoth_def appendByChannel_def appendByContainer_def
      appendAll_def split: if_splits)

lemma found_appendAt:
  "found (appendAt m k r) k' = (if k' = k then found m k @ [r] else found m k')"
  by (simp add: found_def appendAt_def split: option.splits)

lemma Query_both:
  "Container f \<noteq> [] \<Longrightarrow> ReleaseChannel f \<noteq> [] \<Longrightarrow>
     fst (Query im f) = (case byBoth im (ToKey f) of Some out \<Rightarrow> [out] | None \<Rightarrow> [])"
  by (simp add: Query_def split: option.splits)

lemma Query_container:
  "Container f \<noteq> [] \<Longrightarrow> ReleaseChannel f = [] \<Longrightarrow>
     fst (Query im f) = found (byContainer im) (Container f)"
  by (simp add: Query_def found_def split: option.splits)

lemma Query_channel:
  "Container f = [] \<Longrightarrow> ReleaseChannel f \<noteq> [] \<Longrightarrow>
     fst (Query im f) = found (byChannel im) (ReleaseChannel f)"
  by (simp add: Query_def found_def split: option.splits)

lemma Query_neither:
  "Container f = [] \<Longrightarrow> ReleaseChannel f = [] \<Longrightarrow> fst (Query im f) = all im"
  by (simp add: Query_def)

lemma Query_store: "snd (Query im f) = im"
  by (simp add: Query_def split: option.splits)

subsection \<open>The claims about the store\<close>

text \<open>
  C7. A candidate Release in which container, releaseChannel or imagePath is the empty
  string is rejected by Write with an error that names the missing field (the first
  empty one in the order container, releaseChannel, image_path), and the store after
  the call is the store before it: the full sequence and the three index mappings are
  the same.
\<close>

theorem C7_write_rejects_empty_field:
  assumes "Container r = [] \<or> ReleaseChannel r = [] \<or> ImagePath r = []"
  shows "snd (Write im r) = im \<and>
         fst (Write im r) = Some
          ((if Container r = [] then ''`container`''
            else if ReleaseChannel r = [] then ''`releaseChannel`''
            else ''`image_path`'') @ '' not set on write for '' @ fmtRelease r)"
  using assms by (auto simp: Write_def)

theorem C7_write_rejects_empty_field_witness:
  "snd (Write NewInMemoryStore
          \<lparr>Container = ''app'', ImagePath = [], ReleaseChannel = ''dev''\<rparr>) = NewInMemoryStore \<and>
   fst (Write NewInMemoryStore
          \<lparr>Container = ''app'', ImagePath = [], ReleaseChannel = ''dev''\<rparr>) =
     Some ''`image_path` not set on write for &{app  dev}''"
  using C7_write_rejects_empty_field
    [of "\<lparr>Container = ''app'', ImagePath = [], ReleaseChannel = ''dev''\<rparr>" NewInMemoryStore]
  by (simp add: fmtRelease_def)

text \<open>
  C2. Two successful writes of r1 and then r2, with the same composite key
  (container, releaseChannel), into any store: afterwards the query with both fields
  set to that key returns exactly [r2], while the full sequence, the by-container list
  and the by-channel list (as the queries with no field, only container and only
  releaseChannel set return them) are what they were before the two writes, followed
  by r1 and r2.
\<close>

theorem C2_last_write_wins_composite_only:
  assumes w1: "fst (Write im r1) = None"
    and w2: "fst (Write (snd (Write im r1)) r2) = None"
    and key: "ToKey r1 = ToKey r2"
    and fc: "Container f = Container r1"
    and fch: "ReleaseChannel f = ReleaseChannel r1"
  shows "(let im2 = snd (Write (snd (Write im r1)) r2) in
          fst (Query im2 f) = [r2] \<and>
          fst (Query im2 (f\<lparr>Container := [], ReleaseChannel := []\<rparr>)) =
            fst (Query im (f\<lparr>Container := [], ReleaseChannel := []\<rparr>)) @ [r1, r2] \<and>
          fst (Query im2 (f\<lparr>ReleaseChannel := []\<rparr>)) =
            fst (Query im (f\<lparr>ReleaseChannel := []\<rparr>)) @ [r1, r2] \<and>
          fst (Query im2 (f\<lparr>Container := []\<rparr>)) =
            fst (Query im (f\<lparr>Container := []\<rparr>)) @ [r1, r2])"
proof -
  let ?im1 = "snd (Write im r1)"
  let ?im2 = "snd (Write ?im1 r2)"
  from w1 have ne1: "Container r1 \<noteq> []" "ReleaseChannel r1 \<noteq> []"
    by (simp_all add: Write_ok_iff)
  from key have same: "Container r2 = Container r1" "ReleaseChannel r2 = ReleaseChannel r1"
    by (simp_all add: ToKey_def)
  have kf: "ToKey f = ToKey r2"
    using fc fch same by (simp add: ToKey_def)
  have both: "fst (Query ?im2 f) = [r2]"
    using ne1 fc fch by (simp add: Query_both Write_ok_byBoth [OF w2] kf)
  have full: "fst (Query ?im2 (f\<lparr>Container := [], ReleaseChannel := []\<rparr>)) =
      fst (Query im (f\<lparr>Container := [], ReleaseChannel := []\<rparr>)) @ [r1, r2]"
    by (simp add: Query_neither Write_ok_all [OF w2] Write_ok_all [OF w1])
  have cont: "fst (Query ?im2 (f\<lparr>ReleaseChannel := []\<rparr>)) =
      fst (Query im (f\<lparr>ReleaseChannel := []\<rparr>)) @ [r1, r2]"
    using ne1 fc same
    by (simp add: Query_container Write_ok_byContainer [OF w2] Write_ok_byContainer [OF w1]
        found_appendAt)
  have chan: "fst (Query ?im2 (f\<lparr>Container := []\<rparr>)) =
      fst (Query im (f\<lparr>Container := []\<rparr>)) @ [r1, r2]"
    using ne1 fch same
    by (simp add: Query_channel Write_ok_byChannel [OF w2] Write_ok_byChannel [OF w1]
        found_appendAt)
  from both full cont chan show ?thesis
    by (simp add: Let_def)
qed

theorem C2_last_write_wins_composite_only_witness:
  "(let r1 = \<lparr>Container = ''app'', ImagePath = ''img:1'', ReleaseChannel = ''dev''\<rparr>;
        r2 = \<lparr>Container = ''app'', ImagePath = ''img:2'', ReleaseChannel = ''dev''\<rparr>;
        f = \<lparr>Container = ''app'', ImagePath = [], ReleaseChannel = ''dev''\<rparr>;
        im2 = snd (Write (snd (Write NewInMemoryStore r1)) r2)
    in fst (Write NewInMemoryStore r1) = None \<and>
       fst (Write (snd (Write NewInMemoryStore r1)) r2) = None \<and>
       ToKey r1 = ToKey r2 \<and>
       fst (Query im2 f) = [r2] \<and>
       fst (Query im2 (f\<lparr>Container := [], ReleaseChannel := []\<rparr>)) = [r1, r2] \<and>
       fst (Query im2 (f\<lparr>ReleaseChannel := []\<rparr>)) = [r1, r2] \<and>
       fst (Query im2 (f\<lparr>Container := []\<rparr>)) = [r1, r2])"
proof -
  let ?r1 = "\<lparr>Container = ''app'', ImagePath = ''img:1'', ReleaseChannel = ''dev''\<rparr>"
  let ?r2 = "\<lparr>Container = ''app'', ImagePath = ''img:2'', ReleaseChannel = ''dev''\<rparr>"
  let ?f = "\<lparr>Container = ''app'', ImagePath = [], ReleaseChannel = ''dev''\<rparr>"
  have w1: "fst (Write NewInMemoryStore ?r1) = None"
    by (simp add: Write_ok_iff)
  have w2: "fst (Write (snd (Write NewInMemoryStore ?r1)) ?r2) = None"
    by (simp add: Write_ok_iff)
  have key: "ToKey ?r1 = ToKey ?r2"
    by (simp add: ToKey_def)
  have q0: "fst (Query NewInMemoryStore (?f\<lparr>Container := [], ReleaseChannel := []\<rparr>)) = []"
    "fst (Query NewInMemoryStore (?f\<lparr>ReleaseChannel := []\<rparr>)) = []"
    "fst (Query NewInMemoryStore (?f\<lparr>Container := []\<rparr>)) = []"
    by (simp_all add: Query_def NewInMemoryStore_def)
  from C2_last_write_wins_composite_only [OF w1 w2 key, of ?f] q0 w1 w2 key
  show ?thesis
    by (simp add: Let_def)
qed

text \<open>
  C3. Query dispatches in a fixed order of precedence. With both fields set it looks
  the composite key up and returns the one Release found or the empty sequence, so at
  most one element; with only container set it returns the by-container list; with
  only releaseChannel set the by-channel list; with neither set the full sequence.
  In the first three cases a key that is not in the map gives the empty sequence.
  The result is always a sequence: Query has no error result.
\<close>

theorem C3_query_precedence:
  "(Container f \<noteq> [] \<and> ReleaseChannel f \<noteq> [] \<longrightarrow>
      fst (Query im f) = (case byBoth im (ToKey f) of Some out \<Rightarrow> [out] | None \<Rightarrow> []) \<and>
      length (fst (Query im f)) \<le> 1) \<and>
   (Container f \<noteq> [] \<and> ReleaseChannel f = [] \<longrightarrow>
      fst (Query im f) =
        (case byContainer im (Container f) of Some out \<Rightarrow> out | None \<Rightarrow> [])) \<and>
   (Container f = [] \<and> ReleaseChannel f \<noteq> [] \<longrightarrow>
      fst (Query im f) =
        (case byChannel im (ReleaseChannel f) of Some out \<Rightarrow> out | None \<Rightarrow> [])) \<and>
   (Container f = [] \<and> ReleaseChannel f = [] \<longrightarrow> fst (Query im f) = all im)"
  by (simp add: Query_def split: option.splits)

theorem C3_query_precedence_witness:
  "(let r = \<lparr>Container = ''app'', ImagePath = ''img:dev'', ReleaseChannel = ''dev''\<rparr>;
        im = snd (Write NewInMemoryStore r)
    in fst (Query im \<lparr>Container = ''app'', ImagePath = [], ReleaseChannel = ''dev''\<rparr>) = [r] \<and>
       fst (Query im \<lparr>Container = ''app'', ImagePath = [], ReleaseChannel = ''prod''\<rparr>) = [] \<and>
       fst (Query im \<lparr>Container = ''app'', ImagePath = [], ReleaseChannel = []\<rparr>) = [r] \<and>
       fst (Query im \<lparr>Container = ''missing'', ImagePath = [], ReleaseChannel = []\<rparr>) = [] \<and>
       fst (Query im \<lparr>Container = [], ImagePath = [], ReleaseChannel = ''dev''\<rparr>) = [r] \<and>
       fst (Query im \<lparr>Container = [], ImagePath = [], ReleaseChannel = ''prod''\<rparr>) = [] \<and>
       fst (Query im \<lparr>Container = [], ImagePath = [], ReleaseChannel = []\<rparr>) = [r])"
proof -
  let ?r = "\<lparr>Container = ''app'', ImagePath = ''img:dev'', ReleaseChannel = ''dev''\<rparr>"
  let ?im = "snd (Write NewInMemoryStore ?r)"
  have ok: "fst (Write NewInMemoryStore ?r) = None"
    by (simp add: Write_ok_iff)
  have fields: "all ?im = [?r]"
    "byBoth ?im = Map.empty(ToKey ?r \<mapsto> ?r)"
    "byContainer ?im = appendAt Map.empty ''app'' ?r"
    "byChannel ?im = appendAt Map.empty ''dev'' ?r"
    using Write_ok_all [OF ok] Write_ok_byBoth [OF ok] Write_ok_byContainer [OF ok]
      Write_ok_byChannel [OF ok]
    by (simp_all add: NewInMemoryStore_def)
  note q = C3_query_precedence [of _ ?im]
  show ?thesis
    using q [of "\<lparr>Container = ''app'', ImagePath = [], ReleaseChannel = ''dev''\<rparr>"]
      q [of "\<lparr>Container = ''app'', ImagePath = [], ReleaseChannel = ''prod''\<rparr>"]
      q [of "\<lparr>Container = ''app'', ImagePath = [], ReleaseChannel = []\<rparr>"]
      q [of "\<lparr>Container = ''missing'', ImagePath = [], ReleaseChannel = []\<rparr>"]
      q [of "\<lparr>Container = [], ImagePath = [], ReleaseChannel = ''dev''\<rparr>"]
      q [of "\<lparr>Container = [], ImagePath = [], ReleaseChannel = ''prod''\<rparr>"]
      q [of "\<lparr>Container = [], ImagePath = [], ReleaseChannel = []\<rparr>"]
    by (simp add: Let_def fields ToKey_def appendAt_def)
qed

text \<open>
  C10. Query is a total function of the store and the filter, its result is a sequence
  (there is no error result), and the store after the call is the store before it, so
  a second identical query returns the same result.
\<close>

theorem C10_query_leaves_store_unchanged:
  "snd (Query im f) = im \<and> fst (Query (snd (Query im f)) f) = fst (Query im f)"
  by (simp add: Query_store)


subsection \<open>Stores built by the load loop\<close>

text \<open>
  The loop over records that are all non-nil always completes, and its effect on the
  full sequence and on the two list-valued maps is to append, in order, the records
  that \<open>Write\<close> accepts.
\<close>

lemma writeEach_completes: "fst (writeEach im (map Some rs)) = True"
  by (induction rs arbitrary: im) simp_all

lemma writeEach_all:
  "all (snd (writeEach im (map Some rs))) =
     all im @ filter (\<lambda>r. fst (Write NewInMemoryStore r) = None) rs"
proof (induction rs arbitrary: im)
  case Nil
  show ?case by simp
next
  case (Cons r rs)
  show ?case
  proof (cases "fst (Write im r) = None")
    case True
    then have "fst (Write NewInMemoryStore r) = None"
      by (simp add: Write_ok_iff)
    with True Cons.IH [of "snd (Write im r)"] show ?thesis
      by (simp add: Write_ok_all)
  next
    case False
    then have "fst (Write NewInMemoryStore r) \<noteq> None"
      by (simp add: Write_ok_iff)
    with False Cons.IH [of "snd (Write im r)"] show ?thesis
      by (simp add: Write_failed_store)
  qed
qed

lemma writeEach_byContainer:
  "found (byContainer (snd (writeEach im (map Some rs)))) c =
     found (byContainer im) c @
       filter (\<lambda>r. Container r = c) (filter (\<lambda>r. fst (Write NewInMemoryStore r) = None) rs)"
proof (induction rs arbitrary: im)
  case Nil
  show ?case by simp
next
  case (Cons r rs)
  show ?case
  proof (cases "fst (Write im r) = None")
    case True
    then have "fst (Write NewInMemoryStore r) = None"
      by (simp add: Write_ok_iff)
    with True Cons.IH [of "snd (Write im r)"] show ?thesis
      by (simp add: Write_ok_byContainer found_appendAt)
  next
    case False
    then have "fst (Write NewInMemoryStore r) \<noteq> None"
      by (simp add: Write_ok_iff)
    with False Cons.IH [of "snd (Write im r)"] show ?thesis
      by (simp add: Write_failed_store)
  qed
qed

lemma writeEach_byChannel:
  "found (byChannel (snd (writeEach im (map Some rs)))) c =
     found (byChannel im) c @
       filter (\<lambda>r. ReleaseChannel r = c)
         (filter (\<lambda>r. fst (Write NewInMemoryStore r) = None) rs)"
proof (induction rs arbitrary: im)
  case Nil
  show ?case by simp
next
  case (Cons r rs)
  show ?case
  proof (cases "fst (Write im r) = None")
    case True
    then have "fst (Write NewInMemoryStore r) = None"
      by (simp add: Write_ok_iff)
    with True Cons.IH [of "snd (Write im r)"] show ?thesis
      by (simp add: Write_ok_byChannel found_appendAt)
  next
    case False
    then have "fst (Write NewInMemoryStore r) \<noteq> None"
      by (simp add: Write_ok_iff)
    with False Cons.IH [of "snd (Write im r)"] show ?thesis
      by (simp add: Write_failed_store)
  qed
qed

lemma found_empty: "found Map.empty k = []"
  by (simp add: found_def)

text \<open>
  C8. In a store built from the empty store by a sequence of writes, the full sequence
  holds the successfully written Releases in the order written, and for every
  non-empty name c the query with only container set to c returns all and only the
  stored Releases whose container is c, in that order; the query with only
  releaseChannel set to c does the same for the channel.
\<close>

theorem C8_partial_key_queries_in_write_order:
  assumes built: "writeEach NewInMemoryStore (map Some rs) = (True, im)"
    and c: "c \<noteq> []"
  shows "all im = filter (\<lambda>r. fst (Write NewInMemoryStore r) = None) rs \<and>
         fst (Query im \<lparr>Container = c, ImagePath = p, ReleaseChannel = []\<rparr>) =
           filter (\<lambda>r. Container r = c) (all im) \<and>
         fst (Query im \<lparr>Container = [], ImagePath = p, ReleaseChannel = c\<rparr>) =
           filter (\<lambda>r. ReleaseChannel r = c) (all im)"
proof -
  from built have im: "im = snd (writeEach NewInMemoryStore (map Some rs))"
    by simp
  have empty: "all NewInMemoryStore = []" "byContainer NewInMemoryStore = Map.empty"
    "byChannel NewInMemoryStore = Map.empty"
    by (simp_all add: NewInMemoryStore_def)
  have full: "all im = filter (\<lambda>r. fst (Write NewInMemoryStore r) = None) rs"
    unfolding im by (simp add: writeEach_all empty)
  have cont: "found (byContainer im) c = filter (\<lambda>r. Container r = c) (all im)"
    unfolding full unfolding im by (simp add: writeEach_byContainer empty found_empty)
  have chan: "found (byChannel im) c = filter (\<lambda>r. ReleaseChannel r = c) (all im)"
    unfolding full unfolding im by (simp add: writeEach_byChannel empty found_empty)
  from c full cont chan show ?thesis
    by (simp add: Query_container Query_channel)
qed

theorem C8_partial_key_queries_in_write_order_witness:
  "(let r1 = \<lparr>Container = ''app'', ImagePath = ''img:dev'', ReleaseChannel = ''dev''\<rparr>;
        r2 = \<lparr>Container = ''web'', ImagePath = ''web:dev'', ReleaseChannel = ''dev''\<rparr>;
        r3 = \<lparr>Container = ''app'', ImagePath = ''img:prod'', ReleaseChannel = ''prod''\<rparr>;
        im = snd (writeEach NewInMemoryStore [Some r1, Some r2, Some r3])
    in writeEach NewInMemoryStore (map Some [r1, r2, r3]) = (True, im) \<and>
       all im = [r1, r2, r3] \<and>
       fst (Query im \<lparr>Container = ''app'', ImagePath = [], ReleaseChannel = []\<rparr>) = [r1, r3] \<and>
       fst (Query im \<lparr>Container = [], ImagePath = [], ReleaseChannel = ''app''\<rparr>) = [])"
proof -
  let ?r1 = "\<lparr>Container = ''app'', ImagePath = ''img:dev'', ReleaseChannel = ''dev''\<rparr>"
  let ?r2 = "\<lparr>Container = ''web'', ImagePath = ''web:dev'', ReleaseChannel = ''dev''\<rparr>"
  let ?r3 = "\<lparr>Container = ''app'', ImagePath = ''img:prod'', ReleaseChannel = ''prod''\<rparr>"
  define im where "im = snd (writeEach NewInMemoryStore (map Some [?r1, ?r2, ?r3]))"
  have built: "writeEach NewInMemoryStore (map Some [?r1, ?r2, ?r3]) = (True, im)"
    unfolding im_def using writeEach_completes [of NewInMemoryStore "[?r1, ?r2, ?r3]"]
    by (simp only: prod_eq_iff fst_conv snd_conv simp_thms)
  have c: "''app'' \<noteq> []"
    by simp
  have ok: "fst (Write NewInMemoryStore ?r1) = None" "fst (Write NewInMemoryStore ?r2) = None"
    "fst (Write NewInMemoryStore ?r3) = None"
    by (simp_all add: Write_ok_iff)
  from C8_partial_key_queries_in_write_order [OF built c, of "[]"] ok
  have "all im = [?r1, ?r2, ?r3] \<and>
       fst (Query im \<lparr>Container = ''app'', ImagePath = [], ReleaseChannel = []\<rparr>) = [?r1, ?r3] \<and>
       fst (Query im \<lparr>Container = [], ImagePath = [], ReleaseChannel = ''app''\<rparr>) = []"
    by simp
  with built show ?thesis
    unfolding im_def by (simp only: Let_def list.map simp_thms)
qed

subsection \<open>The claims about loading and reloading\<close>

lemma loadDatabase_decoded:
  "jsonUnmarshal e data = Inr (map Some rs) \<Longrightarrow>
     loadDatabase e s data =
       (Returned None, s\<lparr>db := snd (writeEach NewInMemoryStore (map Some rs))\<rparr>)"
proof -
  assume dec: "jsonUnmarshal e data = Inr (map Some rs)"
  obtain b im where w: "writeEach NewInMemoryStore (map Some rs) = (b, im)"
    by (cases "writeEach NewInMemoryStore (map Some rs)")
  with writeEach_completes [of NewInMemoryStore rs] have b: "b = True"
    by simp
  from dec w b show ?thesis
    by (simp add: loadDatabase_def Let_def)
qed

lemma loadDatabase_malformed:
  "jsonUnmarshal e data = Inl err \<Longrightarrow>
     loadDatabase e s data = (Returned (Some err), s\<lparr>db := NewInMemoryStore\<rparr>)"
  by (simp add: loadDatabase_def Let_def)

lemma loadDatabase_null_record:
  "jsonUnmarshal e data = Inr (map Some rs @ None # rest) \<Longrightarrow>
     fst (loadDatabase e s data) = Panicked"
proof -
  assume dec: "jsonUnmarshal e data = Inr (map Some rs @ None # rest)"
  have panics: "fst (writeEach im (map Some rs @ None # rest)) = False" for im
    by (induction rs arbitrary: im) simp_all
  obtain b im where w: "writeEach NewInMemoryStore (map Some rs @ None # rest) = (b, im)"
    by (cases "writeEach NewInMemoryStore (map Some rs @ None # rest)")
  with panics [of NewInMemoryStore] have "b = False"
    by simp
  with dec w show ?thesis
    by (simp add: loadDatabase_def Let_def)
qed

text \<open>
  When none of the decoded records is a JSON null, loadDatabase returns no error,
  whichever of the records fail the validation of Write, and the full sequence of the
  resulting store holds exactly the records that pass it (all three fields non-empty),
  in their order in the blob.
\<close>

lemma loadDatabase_skips_invalid_records:
  assumes "jsonUnmarshal e data = Inr (map Some rs)"
  shows "fst (loadDatabase e s data) = Returned None \<and>
         all (db (snd (loadDatabase e s data))) =
           filter (\<lambda>r. Container r \<noteq> [] \<and> ReleaseChannel r \<noteq> [] \<and> ImagePath r \<noteq> []) rs \<and>
         length (fst (Query (db (snd (loadDatabase e s data)))
                   \<lparr>Container = [], ImagePath = [], ReleaseChannel = []\<rparr>)) =
           length (filter (\<lambda>r. fst (Write NewInMemoryStore r) = None) rs)"
  by (simp add: loadDatabase_decoded [OF assms] writeEach_all Write_ok_iff Query_neither
      NewInMemoryStore_def)

lemma loadDatabase_skips_invalid_records_example:
  "(let r1 = \<lparr>Container = ''app'', ImagePath = ''img:dev'', ReleaseChannel = ''dev''\<rparr>;
        bad = \<lparr>Container = ''app'', ImagePath = [], ReleaseChannel = ''stage''\<rparr>;
        r2 = \<lparr>Container = ''app'', ImagePath = ''img:prod'', ReleaseChannel = ''prod''\<rparr>;
        e = \<lparr>osStat = (\<lambda>p. Inr 2), osReadFile = (\<lambda>p. Inr ''blob''),
             jsonUnmarshal = (\<lambda>d. Inr [Some r1, Some bad, Some r2])\<rparr>;
        s = \<lparr>db = NewInMemoryStore, dbFile = ''db.json'', lastMod = 1\<rparr>
    in jsonUnmarshal e ''blob'' = Inr (map Some [r1, bad, r2]) \<and>
       fst (loadDatabase e s ''blob'') = Returned None \<and>
       all (db (snd (loadDatabase e s ''blob''))) = [r1, r2])"
proof -
  let ?r1 = "\<lparr>Container = ''app'', ImagePath = ''img:dev'', ReleaseChannel = ''dev''\<rparr>"
  let ?bad = "\<lparr>Container = ''app'', ImagePath = [], ReleaseChannel = ''stage''\<rparr>"
  let ?r2 = "\<lparr>Container = ''app'', ImagePath = ''img:prod'', ReleaseChannel = ''prod''\<rparr>"
  let ?e = "\<lparr>osStat = (\<lambda>p. Inr 2), osReadFile = (\<lambda>p. Inr ''blob''),
             jsonUnmarshal = (\<lambda>d. Inr [Some ?r1, Some ?bad, Some ?r2])\<rparr>"
  let ?s = "\<lparr>db = NewInMemoryStore, dbFile = ''db.json'', lastMod = 1\<rparr>"
  have dec: "jsonUnmarshal ?e ''blob'' = Inr (map Some [?r1, ?bad, ?r2])"
    by simp
  from loadDatabase_skips_invalid_records [OF dec, of ?s] dec show ?thesis
    by (simp add: Let_def)
qed

text \<open>
  C4. A blob that deserializes does not always load with its invalid records skipped.
  The sanity check of Write tests the three fields for the empty string but not the
  record pointer for nil, and a JSON null in the array decodes to nil. Evaluated on a
  blob that decodes to a valid record, a null and a second valid record: loadDatabase
  does not return (Write panics on the null), the store it leaves holds the first
  record only, the valid record after the null is not found by a query, and a tick of
  the file watcher on that file ends the watcher.
\<close>

theorem C4_null_record_aborts_load:
  "(let r1 = \<lparr>Container = ''app'', ImagePath = ''img:dev'', ReleaseChannel = ''dev''\<rparr>;
        r2 = \<lparr>Container = ''app'', ImagePath = ''img:prod'', ReleaseChannel = ''prod''\<rparr>;
        e = \<lparr>osStat = (\<lambda>p. Inr 2), osReadFile = (\<lambda>p. Inr ''blob''),
             jsonUnmarshal = (\<lambda>d. Inr [Some r1, None, Some r2])\<rparr>;
        s = \<lparr>db = NewInMemoryStore, dbFile = ''db.json'', lastMod = 1\<rparr>
    in fst (Write NewInMemoryStore r1) = None \<and>
       fst (Write NewInMemoryStore r2) = None \<and>
       fst (loadDatabase e s ''blob'') = Panicked \<and>
       all (db (snd (loadDatabase e s ''blob''))) = [r1] \<and>
       fst (Query (db (snd (loadDatabase e s ''blob'')))
              \<lparr>Container = ''app'', ImagePath = [], ReleaseChannel = ''prod''\<rparr>) = [] \<and>
       fst (ReloadDatabase e s) = Panicked \<and>
       fst (fileWatcher s [Tick e, CtxDone]) = Crashed)"
  by (simp add: Let_def ReloadDatabase_def loadDatabase_def Query_def Write_def
      setByBoth_def appendByChannel_def appendByContainer_def appendAll_def appendAt_def
      NewInMemoryStore_def ToKey_def)

text \<open>
  C5. When the modification time of the backing file is not strictly newer than the
  last-applied watermark, ReloadDatabase returns no error and the server is exactly as
  before (store, file name and watermark), whatever reading or decoding the file would
  have given: the file is not read and nothing is rebuilt.
\<close>

theorem C5_stale_mtime_is_no_reload:
  assumes "osStat e (dbFile s) = Inr t"
    and "\<not> t > lastMod s"
  shows "ReloadDatabase (e\<lparr>osReadFile := rd, jsonUnmarshal := dec\<rparr>) s = (Returned None, s)"
  using assms by (simp add: ReloadDatabase_def)

theorem C5_stale_mtime_is_no_reload_witness:
  "(let sentinel = \<lparr>Container = ''new'', ImagePath = ''new:1'', ReleaseChannel = ''dev''\<rparr>;
        e = \<lparr>osStat = (\<lambda>p. Inr 5), osReadFile = (\<lambda>p. Inr ''blob''),
             jsonUnmarshal = (\<lambda>d. Inr [Some sentinel])\<rparr>;
        s = \<lparr>db = NewInMemoryStore, dbFile = ''db.json'', lastMod = 5\<rparr>
    in osStat e (dbFile s) = Inr 5 \<and> \<not> 5 > lastMod s \<and>
       ReloadDatabase e s = (Returned None, s) \<and>
       fst (Query (db (snd (ReloadDatabase e s)))
              \<lparr>Container = ''new'', ImagePath = [], ReleaseChannel = []\<rparr>) = [])"
proof -
  let ?sentinel = "\<lparr>Container = ''new'', ImagePath = ''new:1'', ReleaseChannel = ''dev''\<rparr>"
  let ?e = "\<lparr>osStat = (\<lambda>p. Inr 5), osReadFile = (\<lambda>p. Inr ''blob''),
             jsonUnmarshal = (\<lambda>d. Inr [Some ?sentinel])\<rparr>"
  let ?s = "\<lparr>db = NewInMemoryStore, dbFile = ''db.json'', lastMod = 5\<rparr>"
  have st: "osStat ?e (dbFile ?s) = Inr 5"
    by simp
  have stale: "\<not> 5 > lastMod ?s"
    by simp
  from C5_stale_mtime_is_no_reload [OF st stale, where rd = "osReadFile ?e" and dec = "jsonUnmarshal ?e"]
  have "ReloadDatabase ?e ?s = (Returned None, ?s)"
    by simp
  then show ?thesis
    by (simp add: Let_def Query_def NewInMemoryStore_def)
qed

text \<open>
  C6. When stating the backing file fails, or the file is newer than the watermark and
  reading it fails, ReloadDatabase returns that error and the server is exactly as
  before: the published store and the watermark are unchanged. The file watcher's
  loop goes on to its next event from that same state.
\<close>

theorem C6_io_error_keeps_generation:
  assumes "osStat e (dbFile s) = Inl err \<or>
           (\<exists>t. osStat e (dbFile s) = Inr t \<and> t > lastMod s \<and>
                osReadFile e (dbFile s) = Inl err)"
  shows "ReloadDatabase e s = (Returned (Some err), s) \<and>
         fileWatcher s (Tick e # evs) = fileWatcher s evs"
  using assms by (auto simp: ReloadDatabase_def)

theorem C6_io_error_keeps_generation_witness:
  "(let r = \<lparr>Container = ''app'', ImagePath = ''img:dev'', ReleaseChannel = ''dev''\<rparr>;
        s = \<lparr>db = snd (Write NewInMemoryStore r), dbFile = ''db.json'', lastMod = 1\<rparr>;
        e1 = \<lparr>osStat = (\<lambda>p. Inl ''no such file''), osReadFile = (\<lambda>p. Inr ''blob''),
              jsonUnmarshal = (\<lambda>d. Inr [])\<rparr>;
        e2 = \<lparr>osStat = (\<lambda>p. Inr 2), osReadFile = (\<lambda>p. Inl ''permission denied''),
              jsonUnmarshal = (\<lambda>d. Inr [])\<rparr>
    in ReloadDatabase e1 s = (Returned (Some ''no such file''), s) \<and>
       ReloadDatabase e2 s = (Returned (Some ''permission denied''), s) \<and>
       fileWatcher s [Tick e1, Tick e2, CtxDone] = (Stopped, s))"
proof -
  let ?r = "\<lparr>Container = ''app'', ImagePath = ''img:dev'', ReleaseChannel = ''dev''\<rparr>"
  let ?s = "\<lparr>db = snd (Write NewInMemoryStore ?r), dbFile = ''db.json'', lastMod = 1\<rparr>"
  let ?e1 = "\<lparr>osStat = (\<lambda>p. Inl ''no such file''), osReadFile = (\<lambda>p. Inr ''blob''),
              jsonUnmarshal = (\<lambda>d. Inr [])\<rparr>"
  let ?e2 = "\<lparr>osStat = (\<lambda>p. Inr 2), osReadFile = (\<lambda>p. Inl ''permission denied''),
              jsonUnmarshal = (\<lambda>d. Inr [])\<rparr>"
  have h1: "osStat ?e1 (dbFile ?s) = Inl ''no such file'' \<or>
      (\<exists>t. osStat ?e1 (dbFile ?s) = Inr t \<and> t > lastMod ?s \<and>
           osReadFile ?e1 (dbFile ?s) = Inl ''no such file'')"
    by simp
  have h2: "osStat ?e2 (dbFile ?s) = Inl ''permission denied'' \<or>
      (\<exists>t. osStat ?e2 (dbFile ?s) = Inr t \<and> t > lastMod ?s \<and>
           osReadFile ?e2 (dbFile ?s) = Inl ''permission denied'')"
    by simp
  from C6_io_error_keeps_generation [OF h1, of "[Tick ?e2, CtxDone]"]
    C6_io_error_keeps_generation [OF h2, of "[CtxDone]"]
  show ?thesis
    by (simp add: Let_def)
qed

text \<open>
  C1. A blob that fails to deserialize makes the reload return the error with the
  watermark unchanged, but the previously published store does not stay: loadDatabase
  assigns a fresh empty store to the server before it decodes the blob. Evaluated on a
  server that holds one Release, whose backing file has become newer and malformed:
  the reload returns the decoding error, the watermark is still 1, and the query that
  returned the Release before the reload returns the empty sequence after it.
\<close>

theorem C1_failed_load_blanks_store:
  "(let r = \<lparr>Container = ''app'', ImagePath = ''img:dev'', ReleaseChannel = ''dev''\<rparr>;
        q = \<lparr>Container = ''app'', ImagePath = [], ReleaseChannel = []\<rparr>;
        s = \<lparr>db = snd (Write NewInMemoryStore r), dbFile = ''db.json'', lastMod = 1\<rparr>;
        e = \<lparr>osStat = (\<lambda>p. Inr 2), osReadFile = (\<lambda>p. Inr ''{''),
             jsonUnmarshal = (\<lambda>d. Inl ''unexpected end of JSON input'')\<rparr>
    in fst (Query (db s) q) = [r] \<and>
       fst (ReloadDatabase e s) = Returned (Some ''unexpected end of JSON input'') \<and>
       lastMod (snd (ReloadDatabase e s)) = 1 \<and>
       db (snd (ReloadDatabase e s)) = NewInMemoryStore \<and>
       fst (Query (db (snd (ReloadDatabase e s))) q) = [])"
  by (simp add: Let_def ReloadDatabase_def loadDatabase_def Query_def Write_def
      setByBoth_def appendByChannel_def appendByContainer_def appendAll_def appendAt_def
      NewInMemoryStore_def)

subsection \<open>The values of the published store during a load\<close>

lemma last_WriteStates: "last (im # WriteStates im r) = snd (Write im r)"
  by (simp add: WriteStates_def Write_def)

lemma last_writeEachStates: "last (im # writeEachStates im rs) = snd (writeEach im rs)"
proof (induction im rs rule: writeEachStates.induct)
  case (1 im)
  show ?case by simp
next
  case (2 im rs)
  show ?case by simp
next
  case (3 im r rs)
  show ?case
  proof (cases "writeEachStates (snd (Write im r)) rs = []")
    case True
    with "3.IH" have "snd (writeEach (snd (Write im r)) rs) = snd (Write im r)"
      by simp
    with True last_WriteStates [of im r] show ?thesis
      by simp
  next
    case False
    with "3.IH" show ?thesis
      by simp
  qed
qed

lemma last_loadDatabaseStates:
  "last (loadDatabaseStates e data) = db (snd (loadDatabase e s data))"
proof (cases "jsonUnmarshal e data")
  case (Inl err)
  then show ?thesis
    by (simp add: loadDatabaseStates_def loadDatabase_def Let_def)
next
  case (Inr rs)
  obtain b im where w: "writeEach NewInMemoryStore rs = (b, im)"
    by (cases "writeEach NewInMemoryStore rs")
  from last_writeEachStates [of NewInMemoryStore rs] w
  have "last (NewInMemoryStore # writeEachStates NewInMemoryStore rs) = im"
    by simp
  with Inr w show ?thesis
    by (cases b) (simp_all add: loadDatabaseStates_def loadDatabase_def Let_def)
qed

text \<open>
  C9. The published store is not replaced by one swap of a fully built generation.
  Evaluated on a load of a blob holding one valid Release: the field holding the store
  takes five values after the assignment of the fresh store, the first of them the
  empty store; in the second one the full sequence already holds the Release while
  the queries by container and by composite key still find nothing, so its indices
  do not agree; only the last one is the store that loadDatabase leaves.
\<close>

theorem C9_load_publishes_unfinished_store:
  "(let r = \<lparr>Container = ''app'', ImagePath = ''img:dev'', ReleaseChannel = ''dev''\<rparr>;
        e = \<lparr>osStat = (\<lambda>p. Inr 2), osReadFile = (\<lambda>p. Inr ''blob''),
             jsonUnmarshal = (\<lambda>d. Inr [Some r])\<rparr>;
        s = \<lparr>db = snd (Write NewInMemoryStore r), dbFile = ''db.json'', lastMod = 1\<rparr>;
        states = loadDatabaseStates e ''blob''
    in length states = 5 \<and>
       states ! 0 = NewInMemoryStore \<and>
       fst (Query (states ! 0) \<lparr>Container = [], ImagePath = [], ReleaseChannel = []\<rparr>) = [] \<and>
       fst (Query (states ! 1) \<lparr>Container = [], ImagePath = [], ReleaseChannel = []\<rparr>) = [r] \<and>
       fst (Query (states ! 1) \<lparr>Container = ''app'', ImagePath = [], ReleaseChannel = []\<rparr>) = [] \<and>
       fst (Query (states ! 1) \<lparr>Container = ''app'', ImagePath = [], ReleaseChannel = ''dev''\<rparr>) = [] \<and>
       states ! 4 = db (snd (loadDatabase e s ''blob'')) \<and>
       fst (Query (states ! 4) \<lparr>Container = ''app'', ImagePath = [], ReleaseChannel = ''dev''\<rparr>) = [r])"
  by (simp add: Let_def loadDatabaseStates_def loadDatabase_def WriteStates_def Query_def
      Write_def setByBoth_def appendByChannel_def appendByContainer_def appendAll_def
      appendAt_def NewInMemoryStore_def ToKey_def)

end
